theory Spec2Isabelle
  imports Main
begin

section \<open>The TCP client transport (client-tcp.ts)\<close>

text \<open>
  A shallow embedding of the class \<open>ClientTCP\<close>. The mutable fields of the object are the
  fields of a record that every method takes and returns. What a method does to the
  outside world (creating a socket, binding a listener, writing to the socket, logging,
  invoking a caller's callback) is appended to the field \<open>effects\<close>, in the order the
  source performs it. A thrown exception is the \<open>Inl\<close> of a sum, or the reason a method
  enters its \<open>catch\<close> branch.

  Callbacks are the caller's functions. They are modelled as opaque names: invoking one is
  recorded in \<open>effects\<close> with the outcome object it was given, and the callback itself
  neither throws nor calls back into the client while it runs. The one callback that does
  call back, the one the request-dispatch base class passes to \<open>publish\<close>, is modelled on top
  of this in the subsection on the caller of \<open>publish\<close>.
\<close>

subsection \<open>JavaScript values\<close>

datatype js_error_class = ErrorClass | TypeErrorClass | EmptyErrorClass

datatype jsval =
    JUndefined
  | JNull
  | JBool bool
  | JNum int
  | JStr string
  | JError js_error_class string
  | JObject nat

text \<open>The truthiness test that \<open>if (x)\<close>, \<open>!x\<close>, \<open>x || y\<close> and \<open>x && y\<close> apply.\<close>

fun truthy :: "jsval \<Rightarrow> bool" where
  "truthy JUndefined = False"
| "truthy JNull = False"
| "truthy (JBool b) = b"
| "truthy (JNum n) = (n \<noteq> 0)"
| "truthy (JStr s) = (s \<noteq> [])"
| "truthy (JError k m) = True"
| "truthy (JObject r) = True"

text \<open>\<open>err instanceof EmptyError\<close>.\<close>

fun instanceofEmptyError :: "jsval \<Rightarrow> bool" where
  "instanceofEmptyError (JError EmptyErrorClass m) = True"
| "instanceofEmptyError v = False"

subsection \<open>Packets, sockets, callbacks\<close>

type_synonym packet_id = string
type_synonym wire = string

text \<open>\<open>ReadPacket\<close> and \<open>ReadPacket & PacketId\<close>: what \<open>publish\<close> is given and what it serializes.\<close>

record read_packet =
  pattern :: jsval
  data :: jsval

record read_packet_id = read_packet +
  req_id :: packet_id

text \<open>
  \<open>WritePacket\<close> and \<open>WritePacket & PacketId\<close>: the outcome object handed to a callback, and
  the decoded inbound message. A key the object literal leaves out reads \<open>JUndefined\<close>.
\<close>

record write_packet =
  err :: jsval
  response :: jsval
  isDisposed :: jsval

record write_packet_id = write_packet +
  resp_id :: packet_id

datatype callback = Callback nat

datatype net_kind = PlainSocket | TlsSocket

datatype tcp_socket = TcpSocket nat net_kind

datatype promise = Promise nat

datatype socket_event = ERROR_EVENT | CLOSE_EVENT | MESSAGE_EVENT

text \<open>The argument of an error event: an object with a \<open>code\<close> property.\<close>

record socket_error =
  code :: jsval
  message :: string

datatype effect =
    SocketCreated tcp_socket
  | ListenerBound tcp_socket socket_event
  | SocketConnect tcp_socket nat string
  | SocketEnd tcp_socket
  | MessageSent tcp_socket wire
  | CallbackInvoked callback write_packet
  | ErrorLogged socket_error

subsection \<open>The object\<close>

text \<open>
  \<open>routingMap\<close> is a JavaScript \<open>Map\<close>: an association list in insertion order with one
  entry per key. \<open>next_ref\<close> is the allocator of object identities, so that two sockets or
  two promises made by different calls are different values.
\<close>

record client =
  connection :: "promise option"
  port :: nat
  host :: string
  isConnected :: bool
  socket :: "tcp_socket option"
  tlsOptions :: jsval
  routingMap :: "(packet_id \<times> callback) list"
  effects :: "effect list"
  next_ref :: nat

text \<open>\<open>Map.prototype.set\<close>: an existing key keeps its place and takes the new value.\<close>

fun routing_set :: "packet_id \<Rightarrow> callback \<Rightarrow> (packet_id \<times> callback) list \<Rightarrow> (packet_id \<times> callback) list" where
  "routing_set k v [] = [(k, v)]"
| "routing_set k v ((k', v') # m) =
     (if k' = k then (k, v) # m else (k', v') # routing_set k v m)"

text \<open>\<open>Map.prototype.get\<close>, \<open>delete\<close>, \<open>values\<close> and \<open>size\<close>.\<close>

fun routing_get :: "(packet_id \<times> callback) list \<Rightarrow> packet_id \<Rightarrow> callback option" where
  "routing_get [] k = None"
| "routing_get ((k', v') # m) k = (if k' = k then Some v' else routing_get m k)"

fun routing_delete :: "packet_id \<Rightarrow> (packet_id \<times> callback) list \<Rightarrow> (packet_id \<times> callback) list" where
  "routing_delete k [] = []"
| "routing_delete k ((k', v') # m) =
     (if k' = k then routing_delete k m else (k', v') # routing_delete k m)"

fun routing_values :: "(packet_id \<times> callback) list \<Rightarrow> callback list" where
  "routing_values [] = []"
| "routing_values ((k, v) # m) = v # routing_values m"

definition routing_size :: "(packet_id \<times> callback) list \<Rightarrow> nat" where
  "routing_size m = length m"

text \<open>Calling a callback with an outcome object.\<close>

definition invoke :: "callback \<Rightarrow> write_packet \<Rightarrow> client \<Rightarrow> client" where
  "invoke cb outcome c = c\<lparr>effects := effects c @ [CallbackInvoked cb outcome]\<rparr>"

subsection \<open>handleResponse\<close>

text \<open>
  The collaborators the class is configured with or inherits: the identifier assignment of
  the base class, the serializer, the deserializer and the socket's \<open>sendMessage\<close>. Each may
  throw (\<open>Inl\<close>, or \<open>Some\<close> for \<open>sendMessage\<close>, carries the thrown value).
\<close>

record deps =
  assignPacketId :: "read_packet \<Rightarrow> jsval + read_packet_id"
  serialize :: "read_packet_id \<Rightarrow> jsval + wire"
  deserialize :: "wire \<Rightarrow> jsval + write_packet_id"
  sendMessage :: "tcp_socket \<Rightarrow> wire \<Rightarrow> jsval option"

text \<open>
  The part of \<open>handleResponse\<close> after the message is decoded: look the callback up, return
  when there is none, otherwise call it with a terminal or a plain outcome.
\<close>

definition deliver :: "write_packet_id \<Rightarrow> client \<Rightarrow> client" where
  "deliver m c =
     (case routing_get (routingMap c) (resp_id m) of
        None \<Rightarrow> c
      | Some cb \<Rightarrow>
          if truthy (isDisposed m) \<or> truthy (err m)
          then invoke cb \<lparr>err = err m, response = response m, isDisposed = JBool True\<rparr> c
          else invoke cb \<lparr>err = err m, response = response m, isDisposed = JUndefined\<rparr> c)"

text \<open>\<open>Inl e\<close>: the promise \<open>handleResponse\<close> returns rejects with \<open>e\<close>; \<open>Inr ()\<close>: it resolves.\<close>

definition handleResponse :: "deps \<Rightarrow> wire \<Rightarrow> client \<Rightarrow> (jsval + unit) \<times> client" where
  "handleResponse d buffer c =
     (case deserialize d buffer of
        Inl e \<Rightarrow> (Inl e, c)
      | Inr m \<Rightarrow> (Inr (), deliver m c))"

subsection \<open>connect\<close>

text \<open>
  \<open>createSocket\<close>: a TLS socket when \<open>tlsOptions\<close> is set, a plain one otherwise, wrapped in
  the socket class. The new object takes the next identity.
\<close>

definition createSocket :: "client \<Rightarrow> tcp_socket \<times> client" where
  "createSocket c =
     (let s = TcpSocket (next_ref c) (if truthy (tlsOptions c) then TlsSocket else PlainSocket)
      in (s, c\<lparr>effects := effects c @ [SocketCreated s], next_ref := Suc (next_ref c)\<rparr>))"

definition bindEvents :: "tcp_socket \<Rightarrow> client \<Rightarrow> client" where
  "bindEvents s c =
     c\<lparr>effects := effects c @ [ListenerBound s ERROR_EVENT, ListenerBound s CLOSE_EVENT]\<rparr>"

text \<open>
  \<open>connect\<close> returns the promise it holds when there is one. Otherwise it creates the
  socket, binds the error and close listeners, issues the stream-level connect unless TLS
  is configured, and stores a new promise.
\<close>

definition connect :: "client \<Rightarrow> promise \<times> client" where
  "connect c =
     (case connection c of
        Some p \<Rightarrow> (p, c)
      | None \<Rightarrow>
          let (s, c1) = createSocket c;
              c2 = c1\<lparr>socket := Some s\<rparr>;
              c3 = bindEvents s c2;
              c4 = (if \<not> truthy (tlsOptions c3)
                    then c3\<lparr>effects := effects c3 @ [SocketConnect s (port c3) (host c3)]\<rparr>
                    else c3);
              p = Promise (next_ref c4);
              c5 = c4\<lparr>connection := Some p, next_ref := Suc (next_ref c4)\<rparr>
          in (p, c5))"

text \<open>
  The \<open>tap\<close> of the connect stream, run when the stream emits: mark connected and bind the
  message listener on the current socket. Calling a method of \<open>this.socket\<close> while it is
  \<open>null\<close> or \<open>undefined\<close> throws a \<open>TypeError\<close>, here \<open>nullDeref\<close>; its message is the engine's
  and stands for either case.
\<close>

definition nullDeref :: jsval where
  "nullDeref = JError TypeErrorClass ''Cannot read properties of null''"

definition onConnected :: "client \<Rightarrow> (jsval + unit) \<times> client" where
  "onConnected c =
     (let c1 = c\<lparr>isConnected := True\<rparr>
      in case socket c1 of
           None \<Rightarrow> (Inl nullDeref, c1)
         | Some s \<Rightarrow> (Inr (), c1\<lparr>effects := effects c1 @ [ListenerBound s MESSAGE_EVENT]\<rparr>))"

text \<open>
  How the stored promise settles. The run of the connect stream is the list of values it
  emitted and the way it ended. \<open>lastValueFrom\<close> (rxjs) resolves with the last value of a
  completed stream, rejects with an \<open>EmptyError\<close> when the stream completed with no value,
  rejects with the stream's error, and stays pending while the stream has not ended. The
  \<open>catch\<close> handler of \<open>connect\<close> returns on an \<open>EmptyError\<close> and rethrows anything else.
\<close>

datatype stream_end = Completed | Failed jsval | Unfinished

datatype settled = Pending | Fulfilled jsval | Rejected jsval

definition lastValueFrom :: "jsval list \<Rightarrow> stream_end \<Rightarrow> settled" where
  "lastValueFrom vs e =
     (case e of
        Unfinished \<Rightarrow> Pending
      | Failed x \<Rightarrow> Rejected x
      | Completed \<Rightarrow>
          (if vs = [] then Rejected (JError EmptyErrorClass ''no elements in sequence'')
           else Fulfilled (last vs)))"

definition catchHandler :: "settled \<Rightarrow> settled" where
  "catchHandler st =
     (case st of
        Rejected x \<Rightarrow> (if instanceofEmptyError x then Fulfilled JUndefined else Rejected x)
      | Fulfilled v \<Rightarrow> Fulfilled v
      | Pending \<Rightarrow> Pending)"

definition connectionResult :: "jsval list \<Rightarrow> stream_end \<Rightarrow> settled" where
  "connectionResult vs e = catchHandler (lastValueFrom vs e)"

subsection \<open>Error and close events, close\<close>

text \<open>Modelled from the spec: the constant \<open>ECONNREFUSED\<close> of \<open>../constants\<close>, the cause code
  of a refused connection.\<close>

definition ECONNREFUSED :: jsval where
  "ECONNREFUSED = JStr ''ECONNREFUSED''"

definition handleError :: "socket_error \<Rightarrow> client \<Rightarrow> client" where
  "handleError e c = c\<lparr>effects := effects c @ [ErrorLogged e]\<rparr>"

text \<open>The listener \<open>bindEvents\<close> registers for the error event.\<close>

definition errorListener :: "socket_error \<Rightarrow> client \<Rightarrow> client" where
  "errorListener e c = (if code e \<noteq> ECONNREFUSED then handleError e c else c)"

text \<open>The \<open>for\<close> loop of \<open>handleClose\<close> over the values of the map.\<close>

primrec invoke_all :: "callback list \<Rightarrow> write_packet \<Rightarrow> client \<Rightarrow> client" where
  "invoke_all [] outcome c = c"
| "invoke_all (cb # cbs) outcome c = invoke_all cbs outcome (invoke cb outcome c)"

definition closedOutcome :: write_packet where
  "closedOutcome =
     \<lparr>err = JError ErrorClass ''Connection closed'', response = JUndefined, isDisposed = JUndefined\<rparr>"

definition handleClose :: "client \<Rightarrow> client" where
  "handleClose c =
     (let c1 = c\<lparr>isConnected := False, socket := None, connection := None\<rparr>
      in if routing_size (routingMap c1) > 0
         then (invoke_all (routing_values (routingMap c1)) closedOutcome c1)\<lparr>routingMap := []\<rparr>
         else c1)"

text \<open>The listener \<open>bindEvents\<close> registers for the close event.\<close>

definition closeListener :: "client \<Rightarrow> client" where
  "closeListener c = handleClose c"

definition close :: "client \<Rightarrow> client" where
  "close c =
     handleClose
       (case socket c of
          None \<Rightarrow> c
        | Some s \<Rightarrow> c\<lparr>effects := effects c @ [SocketEnd s]\<rparr>)"

subsection \<open>publish\<close>

text \<open>The function \<open>publish\<close> returns: calling it deletes the identifier from the map.\<close>

datatype unsubscribe = DeleteEntry packet_id

fun runHandle :: "unsubscribe \<Rightarrow> client \<Rightarrow> client" where
  "runHandle (DeleteEntry k) c = c\<lparr>routingMap := routing_delete k (routingMap c)\<rparr>"

definition failureOutcome :: "jsval \<Rightarrow> write_packet" where
  "failureOutcome e = \<lparr>err = e, response = JUndefined, isDisposed = JUndefined\<rparr>"

text \<open>
  The \<open>try\<close> block step by step; whatever a step throws goes to the \<open>catch\<close> branch, which
  calls the callback with \<open>{ err }\<close> and lets \<open>publish\<close> return \<open>undefined\<close> (\<open>None\<close>).
\<close>

definition publish :: "deps \<Rightarrow> read_packet \<Rightarrow> callback \<Rightarrow> client \<Rightarrow> unsubscribe option \<times> client" where
  "publish d partialPacket cb c =
     (case assignPacketId d partialPacket of
        Inl e \<Rightarrow> (None, invoke cb (failureOutcome e) c)
      | Inr packet \<Rightarrow>
          (case serialize d packet of
             Inl e \<Rightarrow> (None, invoke cb (failureOutcome e) c)
           | Inr serializedPacket \<Rightarrow>
               let c1 = c\<lparr>routingMap := routing_set (req_id packet) cb (routingMap c)\<rparr>
               in (case socket c1 of
                     None \<Rightarrow> (None, invoke cb (failureOutcome nullDeref) c1)
                   | Some s \<Rightarrow>
                       (case sendMessage d s serializedPacket of
                          Some e \<Rightarrow> (None, invoke cb (failureOutcome e) c1)
                        | None \<Rightarrow>
                            (Some (DeleteEntry (req_id packet)),
                             c1\<lparr>effects := effects c1 @ [MessageSent s serializedPacket]\<rparr>)))))"

subsection \<open>The caller of publish\<close>

text \<open>Modelled from the spec: the callback that the request-dispatch base class (the
  class \<open>ClientProxy\<close> that \<open>ClientTCP\<close> extends, which is not among the sources) passes to
  \<open>publish\<close>. The caller keeps the cancellation handle \<open>publish\<close> returned; a terminal outcome
  is an error or the disposal marker, and on a terminal outcome the caller removes its own
  entry by invoking the handle. On any other outcome it leaves the client alone.\<close>

definition callerCallback :: "unsubscribe \<Rightarrow> write_packet \<Rightarrow> client \<Rightarrow> client" where
  "callerCallback h outcome c =
     (if truthy (isDisposed outcome) \<or> truthy (err outcome) then runHandle h c else c)"

text \<open>
  What that callback did during a stretch of recorded effects: its reaction to every
  outcome it was invoked with, in order.
\<close>

fun reactions :: "callback \<Rightarrow> unsubscribe \<Rightarrow> effect list \<Rightarrow> client \<Rightarrow> client" where
  "reactions cb h [] c = c"
| "reactions cb h (CallbackInvoked cb' outcome # es) c =
     reactions cb h es (if cb' = cb then callerCallback h outcome c else c)"
| "reactions cb h (e # es) c = reactions cb h es c"

text \<open>
  \<open>handleResponse\<close> when the callback \<open>cb\<close> is that callback, with handle \<open>h\<close>. The call of the
  callback is the last thing \<open>handleResponse\<close> does on every path, so the client after the
  call is the one \<open>handleResponse\<close> leaves, with the callback's reactions to the invocations
  made in this call applied.
\<close>

definition handleResponseFromSend ::
    "deps \<Rightarrow> wire \<Rightarrow> callback \<Rightarrow> unsubscribe \<Rightarrow> client \<Rightarrow> (jsval + unit) \<times> client" where
  "handleResponseFromSend d buffer cb h c =
     (case handleResponse d buffer c of
        (r, c1) \<Rightarrow> (r, reactions cb h (drop (length (effects c)) (effects c1)) c1))"

subsection \<open>Example objects\<close>

text \<open>A client as the constructor leaves it, for a given port, host and TLS configuration.\<close>

definition new_client :: "nat \<Rightarrow> string \<Rightarrow> jsval \<Rightarrow> client" where
  "new_client p h tls =
     \<lparr>connection = None, port = p, host = h, isConnected = False, socket = None,
      tlsOptions = tls, routingMap = [], effects = [], next_ref = 0\<rparr>"

text \<open>A connected client with two pending requests.\<close>

definition busy_client :: client where
  "busy_client =
     \<lparr>connection = Some (Promise 1), port = 3000, host = ''localhost'', isConnected = True,
      socket = Some (TcpSocket 0 PlainSocket), tlsOptions = JUndefined,
      routingMap = [(''1'', Callback 10), (''2'', Callback 20)], effects = [], next_ref = 2\<rparr>"

text \<open>A connected client with one pending request, under another identifier.\<close>

definition waiting_client :: client where
  "waiting_client =
     \<lparr>connection = Some (Promise 1), port = 3000, host = ''localhost'', isConnected = True,
      socket = Some (TcpSocket 0 PlainSocket), tlsOptions = JUndefined,
      routingMap = [(''2'', Callback 20)], effects = [], next_ref = 2\<rparr>"

text \<open>
  Collaborators that behave: the identifier \<open>''1''\<close> is assigned, the wire form of a
  request is its identifier, an inbound \<open>''ok''\<close> decodes to a plain response for \<open>''1''\<close>, an
  inbound \<open>''done''\<close> to a disposed one, anything else to a message for \<open>''9''\<close>, and writes
  succeed.
\<close>

definition good_deps :: deps where
  "good_deps =
     \<lparr>assignPacketId = (\<lambda>r. Inr \<lparr>pattern = pattern r, data = data r, req_id = ''1''\<rparr>),
      serialize = (\<lambda>p. Inr (req_id p)),
      deserialize = (\<lambda>b.
        if b = ''ok'' then
          Inr \<lparr>err = JUndefined, response = JStr ''ok'', isDisposed = JUndefined, resp_id = ''1''\<rparr>
        else if b = ''done'' then
          Inr \<lparr>err = JUndefined, response = JStr ''ok'', isDisposed = JBool True, resp_id = ''1''\<rparr>
        else
          Inr \<lparr>err = JUndefined, response = JNull, isDisposed = JUndefined, resp_id = ''9''\<rparr>),
      sendMessage = (\<lambda>s w. None)\<rparr>"

text \<open>Collaborators whose serializer throws, and collaborators whose socket write throws.\<close>

definition bad_serializer :: deps where
  "bad_serializer = good_deps\<lparr>serialize := (\<lambda>p. Inl (JError TypeErrorClass ''cyclic''))\<rparr>"

definition bad_write :: deps where
  "bad_write = good_deps\<lparr>sendMessage := (\<lambda>s w. Some (JError ErrorClass ''EPIPE''))\<rparr>"

definition a_request :: read_packet where
  "a_request = \<lparr>pattern = JStr ''sum'', data = JNum 3\<rparr>"

text \<open>The scenario: construct, connect, the connect event, publish (identifier 1), then the
  inbound messages.\<close>

definition scenario_sent :: "unsubscribe option \<times> client" where
  "scenario_sent =
     publish good_deps a_request (Callback 30)
       (snd (onConnected (snd (connect (new_client 3000 ''localhost'' JUndefined)))))"

text \<open>Two error events: a refused connection and a reset one.\<close>

definition refused_error :: socket_error where
  "refused_error = \<lparr>code = JStr ''ECONNREFUSED'', message = ''connect ECONNREFUSED 127.0.0.1:3000''\<rparr>"

definition reset_error :: socket_error where
  "reset_error = \<lparr>code = JStr ''ECONNRESET'', message = ''read ECONNRESET''\<rparr>"

subsection \<open>Reading the record of effects\<close>

text \<open>The sockets created and the stream-level connects issued, in order.\<close>

fun sockets_created :: "effect list \<Rightarrow> tcp_socket list" where
  "sockets_created [] = []"
| "sockets_created (SocketCreated s # es) = s # sockets_created es"
| "sockets_created (e # es) = sockets_created es"

fun connects_issued :: "effect list \<Rightarrow> tcp_socket list" where
  "connects_issued [] = []"
| "connects_issued (SocketConnect s p h # es) = s # connects_issued es"
| "connects_issued (e # es) = connects_issued es"

text \<open>The callbacks invoked, with the outcome each was given, in order.\<close>

fun invocations :: "effect list \<Rightarrow> (callback \<times> write_packet) list" where
  "invocations [] = []"
| "invocations (CallbackInvoked cb outcome # es) = (cb, outcome) # invocations es"
| "invocations (e # es) = invocations es"

text \<open>
  Every object the client holds was allocated before \<open>next_ref\<close>. The constructor
  establishes this and every method keeps it.
\<close>

definition refs_fresh :: "client \<Rightarrow> bool" where
  "refs_fresh c =
     ((case connection c of None \<Rightarrow> True | Some (Promise n) \<Rightarrow> n < next_ref c) \<and>
      (case socket c of None \<Rightarrow> True | Some (TcpSocket n k) \<Rightarrow> n < next_ref c))"

subsection \<open>Facts about the routing map and the drain loop\<close>

lemma routing_get_set: "routing_get (routing_set k v m) k = Some v"
  by (induction m) auto

lemma routing_get_set_other: "k' \<noteq> k \<Longrightarrow> routing_get (routing_set k v m) k' = routing_get m k'"
  by (induction m) auto

lemma routing_get_delete: "routing_get (routing_delete k m) k = None"
  by (induction m) auto

lemma routing_get_delete_other:
  "k' \<noteq> k \<Longrightarrow> routing_get (routing_delete k m) k' = routing_get m k'"
  by (induction m) auto

lemma invoke_all_frame:
  "invoke_all cbs outcome c =
     c\<lparr>effects := effects c @ map (\<lambda>cb. CallbackInvoked cb outcome) cbs\<rparr>"
  by (induction cbs arbitrary: c) (simp_all add: invoke_def)

lemma handleClose_eq:
  "handleClose c =
     c\<lparr>connection := None, isConnected := False, socket := None, routingMap := [],
       effects := effects c @ map (\<lambda>cb. CallbackInvoked cb closedOutcome)
                                  (routing_values (routingMap c))\<rparr>"
  by (cases "routingMap c") (simp_all add: handleClose_def routing_size_def invoke_all_frame Let_def)

subsection \<open>Facts about connect and the allocator\<close>

lemma sockets_created_append:
  "sockets_created (xs @ ys) = sockets_created xs @ sockets_created ys"
  by (induction xs rule: sockets_created.induct) simp_all

lemma connects_issued_append:
  "connects_issued (xs @ ys) = connects_issued xs @ connects_issued ys"
  by (induction xs rule: connects_issued.induct) simp_all

lemma invocations_append:
  "invocations (xs @ ys) = invocations xs @ invocations ys"
  by (induction xs rule: invocations.induct) simp_all

lemma connect_fresh:
  assumes "connection c = None"
  shows "connect c =
     (Promise (Suc (next_ref c)),
      c\<lparr>socket := Some (TcpSocket (next_ref c) (if truthy (tlsOptions c) then TlsSocket else PlainSocket)),
        effects := effects c @
          [SocketCreated (TcpSocket (next_ref c) (if truthy (tlsOptions c) then TlsSocket else PlainSocket)),
           ListenerBound (TcpSocket (next_ref c) (if truthy (tlsOptions c) then TlsSocket else PlainSocket)) ERROR_EVENT,
           ListenerBound (TcpSocket (next_ref c) (if truthy (tlsOptions c) then TlsSocket else PlainSocket)) CLOSE_EVENT] @
          (if truthy (tlsOptions c) then []
           else [SocketConnect (TcpSocket (next_ref c) PlainSocket) (port c) (host c)]),
        connection := Some (Promise (Suc (next_ref c))),
        next_ref := Suc (Suc (next_ref c))\<rparr>)"
  using assms by (simp add: connect_def createSocket_def bindEvents_def Let_def)

lemma connect_held: "connection c = Some p \<Longrightarrow> connect c = (p, c)"
  by (simp add: connect_def)

lemma refs_fresh_new: "refs_fresh (new_client p h tls)"
  by (simp add: refs_fresh_def new_client_def)

lemma refs_fresh_connect: "refs_fresh c \<Longrightarrow> refs_fresh (snd (connect c))"
  by (cases "connection c") (auto simp add: connect_fresh connect_held refs_fresh_def split: option.splits promise.splits tcp_socket.splits)

lemma refs_fresh_handleClose: "refs_fresh c \<Longrightarrow> refs_fresh (handleClose c)"
  by (simp add: handleClose_eq refs_fresh_def)

lemma refs_fresh_close: "refs_fresh c \<Longrightarrow> refs_fresh (close c)"
  by (cases "socket c") (simp_all add: close_def handleClose_eq refs_fresh_def)

lemma refs_fresh_errorListener: "refs_fresh c \<Longrightarrow> refs_fresh (errorListener e c)"
  by (auto simp add: errorListener_def handleError_def refs_fresh_def
      split: option.splits promise.splits tcp_socket.splits)

lemma refs_fresh_onConnected: "refs_fresh c \<Longrightarrow> refs_fresh (snd (onConnected c))"
  by (auto simp add: onConnected_def refs_fresh_def
      split: option.splits promise.splits tcp_socket.splits)

lemma refs_fresh_invoke: "refs_fresh c \<Longrightarrow> refs_fresh (invoke cb outcome c)"
  by (auto simp add: invoke_def refs_fresh_def
      split: option.splits promise.splits tcp_socket.splits)

lemma refs_fresh_handleResponse: "refs_fresh c \<Longrightarrow> refs_fresh (snd (handleResponse d buffer c))"
  by (auto simp add: handleResponse_def deliver_def refs_fresh_invoke
      split: sum.splits option.splits)

lemma refs_fresh_routingMap: "refs_fresh c \<Longrightarrow> refs_fresh (c\<lparr>routingMap := m\<rparr>)"
  by (auto simp add: refs_fresh_def split: option.splits promise.splits tcp_socket.splits)

lemma refs_fresh_effects: "refs_fresh c \<Longrightarrow> refs_fresh (c\<lparr>effects := es\<rparr>)"
  by (auto simp add: refs_fresh_def split: option.splits promise.splits tcp_socket.splits)

lemma refs_fresh_publish: "refs_fresh c \<Longrightarrow> refs_fresh (snd (publish d rp cb c))"
  by (auto simp add: publish_def Let_def refs_fresh_invoke refs_fresh_routingMap refs_fresh_effects
      split: sum.splits option.splits)

subsection \<open>Results about the close event\<close>

text \<open>
  C1. When the close event fires, \<open>handleClose\<close> sets \<open>isConnected\<close> to false, drops the
  socket and the connection promise, invokes every callback that is in the routing map at
  that moment, once and in the map's order, with the failure outcome whose error is
  \<open>Connection closed\<close>, and leaves the routing map empty (size zero). A \<open>connect\<close> after it
  creates one more socket and stores a promise; for a client whose objects were allocated
  by its own methods, that promise and that socket are not the ones held before the close.
\<close>

theorem handleClose_teardown:
  "isConnected (handleClose c) = False
   \<and> socket (handleClose c) = None
   \<and> connection (handleClose c) = None
   \<and> err closedOutcome = JError ErrorClass ''Connection closed''
   \<and> invocations (effects (handleClose c)) =
       invocations (effects c) @ map (\<lambda>cb. (cb, closedOutcome)) (routing_values (routingMap c))
   \<and> (\<forall>cb \<in> set (routing_values (routingMap c)).
         CallbackInvoked cb closedOutcome \<in> set (effects (handleClose c)))
   \<and> routingMap (handleClose c) = []
   \<and> routing_size (routingMap (handleClose c)) = 0
   \<and> (case connect (handleClose c) of (p, c2) \<Rightarrow>
         connection c2 = Some p
         \<and> sockets_created (effects c2) = sockets_created (effects c) @ [the (socket c2)]
         \<and> (refs_fresh c \<longrightarrow> connection c \<noteq> Some p \<and> socket c \<noteq> socket c2))"
proof -
  let ?h = "handleClose c"
  have inv: "invocations (map (\<lambda>cb. CallbackInvoked cb closedOutcome) cbs) =
      map (\<lambda>cb. (cb, closedOutcome)) cbs" for cbs
    by (induction cbs) simp_all
  have sc: "sockets_created (map (\<lambda>cb. CallbackInvoked cb closedOutcome) cbs) = []" for cbs
    by (induction cbs) simp_all
  have st: "isConnected ?h = False" "socket ?h = None" "connection ?h = None"
    "routingMap ?h = []" "next_ref ?h = next_ref c"
    by (simp_all add: handleClose_eq)
  have ef: "effects ?h = effects c @ map (\<lambda>cb. CallbackInvoked cb closedOutcome)
      (routing_values (routingMap c))"
    by (simp add: handleClose_eq)
  have e1: "err closedOutcome = JError ErrorClass ''Connection closed''"
    by (simp add: closedOutcome_def)
  have e2: "invocations (effects ?h) =
       invocations (effects c) @ map (\<lambda>cb. (cb, closedOutcome)) (routing_values (routingMap c))"
    by (simp add: ef invocations_append inv)
  have e3: "\<forall>cb \<in> set (routing_values (routingMap c)).
         CallbackInvoked cb closedOutcome \<in> set (effects ?h)"
    by (simp add: ef)
  have e4: "routing_size (routingMap ?h) = 0"
    by (simp add: st routing_size_def)
  have e5: "case connect ?h of (p, c2) \<Rightarrow>
         connection c2 = Some p
         \<and> sockets_created (effects c2) = sockets_created (effects c) @ [the (socket c2)]
         \<and> (refs_fresh c \<longrightarrow> connection c \<noteq> Some p \<and> socket c \<noteq> socket c2)"
    by (auto simp add: connect_fresh [OF st(3)] st ef sockets_created_append sc refs_fresh_def
        split: option.splits promise.splits tcp_socket.splits)
  from st e1 e2 e3 e4 e5 show ?thesis by blast
qed


theorem handleClose_teardown_witness:
  "refs_fresh busy_client
   \<and> isConnected (handleClose busy_client) = False
   \<and> invocations (effects (handleClose busy_client)) =
       [(Callback 10, closedOutcome), (Callback 20, closedOutcome)]
   \<and> CallbackInvoked (Callback 20) closedOutcome \<in> set (effects (handleClose busy_client))
   \<and> routingMap (handleClose busy_client) = []
   \<and> connection busy_client = Some (Promise 1)
   \<and> fst (connect (handleClose busy_client)) = Promise 3
   \<and> connection busy_client \<noteq> Some (fst (connect (handleClose busy_client)))
   \<and> socket busy_client \<noteq> socket (snd (connect (handleClose busy_client)))"
proof -
  have f: "refs_fresh busy_client"
    by (simp add: refs_fresh_def busy_client_def)
  have v: "routing_values (routingMap busy_client) = [Callback 10, Callback 20]"
    by (simp add: busy_client_def)
  have e: "effects busy_client = []" "connection busy_client = Some (Promise 1)"
    "next_ref busy_client = 2"
    by (simp_all add: busy_client_def)
  have n: "connection (handleClose busy_client) = None"
    by (simp add: handleClose_eq)
  have r: "next_ref (handleClose busy_client) = 2"
    by (simp add: handleClose_eq e)
  have p: "fst (connect (handleClose busy_client)) = Promise 3"
    by (simp add: connect_fresh [OF n] r)
  from handleClose_teardown [of busy_client] f v e p show ?thesis
    by (auto split: prod.splits)
qed

subsection \<open>Facts about publish\<close>

lemma publish_caught_early:
  assumes "assignPacketId d rp = Inl e \<or> (assignPacketId d rp = Inr pk \<and> serialize d pk = Inl e)"
  shows "publish d rp cb c = (None, c\<lparr>effects := effects c @ [CallbackInvoked cb (failureOutcome e)]\<rparr>)"
  using assms by (auto simp add: publish_def invoke_def)

lemma handleResponse_routingMap: "routingMap (snd (handleResponse d buffer c)) = routingMap c"
  by (simp add: handleResponse_def deliver_def invoke_def split: sum.splits option.splits)

lemma publish_sent:
  assumes "publish d rp cb c = (Some h, c1)"
  shows "\<exists>pk w s. assignPacketId d rp = Inr pk \<and> serialize d pk = Inr w \<and> socket c = Some s
           \<and> sendMessage d s w = None \<and> h = DeleteEntry (req_id pk)
           \<and> c1 = c\<lparr>routingMap := routing_set (req_id pk) cb (routingMap c),
                    effects := effects c @ [MessageSent s w]\<rparr>"
  using assms
  by (auto simp add: publish_def invoke_def Let_def split: sum.splits option.splits)

lemma scenario_sent_eq:
  "scenario_sent =
     (Some (DeleteEntry ''1''),
      \<lparr>connection = Some (Promise 1), port = 3000, host = ''localhost'', isConnected = True,
       socket = Some (TcpSocket 0 PlainSocket), tlsOptions = JUndefined,
       routingMap = [(''1'', Callback 30)],
       effects =
         [SocketCreated (TcpSocket 0 PlainSocket),
          ListenerBound (TcpSocket 0 PlainSocket) ERROR_EVENT,
          ListenerBound (TcpSocket 0 PlainSocket) CLOSE_EVENT,
          SocketConnect (TcpSocket 0 PlainSocket) 3000 ''localhost'',
          ListenerBound (TcpSocket 0 PlainSocket) MESSAGE_EVENT,
          MessageSent (TcpSocket 0 PlainSocket) ''1''],
       next_ref = 2\<rparr>)"
  by (simp add: scenario_sent_def new_client_def connect_def createSocket_def bindEvents_def
      onConnected_def publish_def good_deps_def a_request_def Let_def)

subsection \<open>Facts about close\<close>

lemma close_eq:
  "close c =
     c\<lparr>connection := None, isConnected := False, socket := None, routingMap := [],
       effects := effects c @ (case socket c of None \<Rightarrow> [] | Some s \<Rightarrow> [SocketEnd s]) @
                  map (\<lambda>cb. CallbackInvoked cb closedOutcome) (routing_values (routingMap c))\<rparr>"
  by (cases "socket c") (simp_all add: close_def handleClose_eq)

text \<open>
  C9. \<open>close\<close> asks the socket to end only when there is a socket, and always runs
  \<open>handleClose\<close>. After it the socket and the connection promise are gone, \<open>isConnected\<close> is
  false and the routing map is empty. A second \<open>close\<close> changes nothing: it ends no socket
  and invokes no callback.
\<close>

theorem close_idempotent:
  "(socket c = None \<longrightarrow> close c = handleClose c)
   \<and> (socket c = Some s \<longrightarrow> close c = handleClose (c\<lparr>effects := effects c @ [SocketEnd s]\<rparr>))
   \<and> effects (close c) =
       effects c @ (case socket c of None \<Rightarrow> [] | Some s \<Rightarrow> [SocketEnd s]) @
       map (\<lambda>cb. CallbackInvoked cb closedOutcome) (routing_values (routingMap c))
   \<and> socket (close c) = None
   \<and> connection (close c) = None
   \<and> isConnected (close c) = False
   \<and> routingMap (close c) = []
   \<and> close (close c) = close c
   \<and> effects (close (close c)) = effects (close c)"
proof -
  have a: "close c = handleClose c" if "socket c = None"
    using that by (simp add: close_def)
  have b: "close c = handleClose (c\<lparr>effects := effects c @ [SocketEnd s]\<rparr>)" if "socket c = Some s"
    using that by (simp add: close_def)
  have st: "socket (close c) = None" "connection (close c) = None" "isConnected (close c) = False"
    "routingMap (close c) = []"
    by (simp_all add: close_eq)
  have e: "effects (close c) =
       effects c @ (case socket c of None \<Rightarrow> [] | Some s \<Rightarrow> [SocketEnd s]) @
       map (\<lambda>cb. CallbackInvoked cb closedOutcome) (routing_values (routingMap c))"
    by (simp add: close_eq)
  have i: "close (close c) = close c"
    by (simp add: close_eq [of "close c"] st)
  from a b st e i show ?thesis by simp
qed

theorem close_idempotent_witness:
  "socket busy_client = Some (TcpSocket 0 PlainSocket)
   \<and> effects (close busy_client) =
       [SocketEnd (TcpSocket 0 PlainSocket),
        CallbackInvoked (Callback 10) closedOutcome,
        CallbackInvoked (Callback 20) closedOutcome]
   \<and> close (close busy_client) = close busy_client
   \<and> socket (new_client 3000 ''localhost'' JUndefined) = None
   \<and> close (new_client 3000 ''localhost'' JUndefined) = new_client 3000 ''localhost'' JUndefined"
proof -
  let ?n = "new_client 3000 ''localhost'' JUndefined"
  have a: "socket busy_client = Some (TcpSocket 0 PlainSocket)" "effects busy_client = []"
    "routing_values (routingMap busy_client) = [Callback 10, Callback 20]"
    by (simp_all add: busy_client_def)
  have b: "socket ?n = None"
    by (simp add: new_client_def)
  have h: "handleClose ?n = ?n"
    by (simp add: handleClose_eq new_client_def)
  note t = close_idempotent [of busy_client "TcpSocket 0 PlainSocket"]
  from t have e: "effects (close busy_client) =
       effects busy_client @ (case socket busy_client of None \<Rightarrow> [] | Some s \<Rightarrow> [SocketEnd s]) @
       map (\<lambda>cb. CallbackInvoked cb closedOutcome) (routing_values (routingMap busy_client))"
    by blast
  from t have i: "close (close busy_client) = close busy_client"
    by blast
  from close_idempotent [of ?n "TcpSocket 0 PlainSocket"] b h have n: "close ?n = ?n"
    by simp
  from e i n a b show ?thesis by simp
qed

subsection \<open>Results about the error event\<close>

text \<open>
  C6. Read as stated, an error event whose code is \<open>ECONNREFUSED\<close> would be logged at this
  layer. The listener does nothing at all for it: nothing is logged.
\<close>

theorem refused_not_logged_counterexample:
  "code refused_error = ECONNREFUSED
   \<and> errorListener refused_error busy_client = busy_client
   \<and> effects (errorListener refused_error busy_client) = []
   \<and> ErrorLogged refused_error \<notin> set (effects (errorListener refused_error busy_client))"
  by (simp add: refused_error_def ECONNREFUSED_def errorListener_def busy_client_def)

text \<open>
  C6, amended. An error event whose code is \<open>ECONNREFUSED\<close> is dropped by the listener:
  \<open>handleError\<close> is not called and nothing is logged. Any other error event is passed to
  \<open>handleError\<close>, which logs it. In both cases \<open>isConnected\<close>, the socket, the connection
  promise and the routing map are unchanged.
\<close>

theorem errorListener_frame:
  "(code e = ECONNREFUSED \<longrightarrow> errorListener e c = c)
   \<and> (code e \<noteq> ECONNREFUSED \<longrightarrow>
        errorListener e c = handleError e c
        \<and> effects (errorListener e c) = effects c @ [ErrorLogged e])
   \<and> isConnected (errorListener e c) = isConnected c
   \<and> socket (errorListener e c) = socket c
   \<and> connection (errorListener e c) = connection c
   \<and> routingMap (errorListener e c) = routingMap c"
  by (simp add: errorListener_def handleError_def)

theorem errorListener_frame_witness:
  "code refused_error = ECONNREFUSED
   \<and> errorListener refused_error busy_client = busy_client
   \<and> code reset_error \<noteq> ECONNREFUSED
   \<and> effects (errorListener reset_error busy_client) = [ErrorLogged reset_error]
   \<and> routingMap (errorListener reset_error busy_client) = routingMap busy_client
   \<and> connection (errorListener reset_error busy_client) = connection busy_client"
proof -
  have a: "code refused_error = ECONNREFUSED"
    by (simp add: refused_error_def ECONNREFUSED_def)
  have b: "code reset_error \<noteq> ECONNREFUSED"
    by (simp add: reset_error_def ECONNREFUSED_def)
  have e: "effects busy_client = []"
    by (simp add: busy_client_def)
  from errorListener_frame [of refused_error busy_client]
    errorListener_frame [of reset_error busy_client] a b e
  show ?thesis by (simp add: handleError_def)
qed

subsection \<open>Results about the connection promise\<close>

text \<open>
  C8. When the connect stream completes without a value, \<open>lastValueFrom\<close> rejects with an
  \<open>EmptyError\<close> and the \<open>catch\<close> handler turns that into a promise resolved with
  \<open>undefined\<close>. A rejection with anything that is not an \<open>EmptyError\<close> is rethrown: the
  connection promise rejects with the same value. A resolved promise stays as it is.
\<close>

theorem connection_empty_completion:
  "connectionResult [] Completed = Fulfilled JUndefined
   \<and> (lastValueFrom vs en = Rejected x \<and> instanceofEmptyError x \<longrightarrow>
        connectionResult vs en = Fulfilled JUndefined)
   \<and> (lastValueFrom vs en = Rejected x \<and> \<not> instanceofEmptyError x \<longrightarrow>
        connectionResult vs en = Rejected x)
   \<and> (lastValueFrom vs en = Fulfilled v \<longrightarrow> connectionResult vs en = Fulfilled v)"
  by (simp add: connectionResult_def catchHandler_def lastValueFrom_def)

theorem connection_empty_completion_witness:
  "lastValueFrom [] Completed = Rejected (JError EmptyErrorClass ''no elements in sequence'')
   \<and> connectionResult [] Completed = Fulfilled JUndefined
   \<and> lastValueFrom [] (Failed (JError ErrorClass ''ETIMEDOUT'')) = Rejected (JError ErrorClass ''ETIMEDOUT'')
   \<and> connectionResult [] (Failed (JError ErrorClass ''ETIMEDOUT'')) = Rejected (JError ErrorClass ''ETIMEDOUT'')
   \<and> connectionResult [JObject 0] Completed = Fulfilled (JObject 0)"
proof -
  have a: "lastValueFrom [] Completed = Rejected (JError EmptyErrorClass ''no elements in sequence'')"
    by (simp add: lastValueFrom_def)
  have b: "lastValueFrom [] (Failed (JError ErrorClass ''ETIMEDOUT'')) =
      Rejected (JError ErrorClass ''ETIMEDOUT'')"
    by (simp add: lastValueFrom_def)
  have c: "lastValueFrom [JObject 0] Completed = Fulfilled (JObject 0)"
    by (simp add: lastValueFrom_def)
  from connection_empty_completion [of "[]" Completed "JError EmptyErrorClass ''no elements in sequence''"]
    connection_empty_completion [of "[]" "Failed (JError ErrorClass ''ETIMEDOUT'')" "JError ErrorClass ''ETIMEDOUT''"]
    connection_empty_completion [of "[JObject 0]" Completed x "JObject 0"]
    a b c
  show ?thesis by simp
qed

subsection \<open>Results about handleResponse\<close>

text \<open>
  C7. A decoded inbound message whose identifier has no callback in the routing map:
  \<open>handleResponse\<close> resolves, invokes no callback and changes nothing of the client, the
  routing map and the connection state included.
\<close>

theorem handleResponse_unknown_id:
  assumes "deserialize d buffer = Inr m"
    and "routing_get (routingMap c) (resp_id m) = None"
  shows "handleResponse d buffer c = (Inr (), c)"
  using assms by (simp add: handleResponse_def deliver_def)

theorem handleResponse_unknown_id_witness:
  "deserialize good_deps ''late'' =
     Inr \<lparr>err = JUndefined, response = JNull, isDisposed = JUndefined, resp_id = ''9''\<rparr>
   \<and> routing_get (routingMap busy_client) ''9'' = None
   \<and> handleResponse good_deps ''late'' busy_client = (Inr (), busy_client)"
proof -
  let ?m = "\<lparr>err = JUndefined, response = JNull, isDisposed = JUndefined, resp_id = ''9''\<rparr>"
  have a: "deserialize good_deps ''late'' = Inr ?m"
    by (simp add: good_deps_def)
  have b: "routing_get (routingMap busy_client) (resp_id ?m) = None"
    by (simp add: busy_client_def)
  from handleResponse_unknown_id [OF a b] a b show ?thesis by simp
qed

text \<open>
  C3. A decoded inbound message whose identifier has a callback in the routing map. When
  the message carries an error or the disposed marker (either is truthy), the callback is
  invoked once with \<open>err\<close>, \<open>response\<close> and \<open>isDisposed: true\<close>. Otherwise it is invoked once
  with \<open>err\<close> and \<open>response\<close> only. In both cases the routing map is left as it was, so the
  identifier stays registered for further messages.
\<close>

theorem handleResponse_delivery:
  assumes "deserialize d buffer = Inr m"
    and "routing_get (routingMap c) (resp_id m) = Some cb"
  shows "(truthy (isDisposed m) \<or> truthy (err m) \<longrightarrow>
            handleResponse d buffer c =
              (Inr (), c\<lparr>effects := effects c @
                 [CallbackInvoked cb \<lparr>err = err m, response = response m, isDisposed = JBool True\<rparr>]\<rparr>))
         \<and> (\<not> truthy (isDisposed m) \<and> \<not> truthy (err m) \<longrightarrow>
            handleResponse d buffer c =
              (Inr (), c\<lparr>effects := effects c @
                 [CallbackInvoked cb \<lparr>err = err m, response = response m, isDisposed = JUndefined\<rparr>]\<rparr>))
         \<and> length (invocations (effects (snd (handleResponse d buffer c)))) =
             Suc (length (invocations (effects c)))
         \<and> routingMap (snd (handleResponse d buffer c)) = routingMap c
         \<and> routing_get (routingMap (snd (handleResponse d buffer c))) (resp_id m) = Some cb"
  using assms by (simp add: handleResponse_def deliver_def invoke_def invocations_append)

theorem handleResponse_delivery_witness:
  "handleResponse good_deps ''done'' busy_client =
     (Inr (), busy_client\<lparr>effects :=
        [CallbackInvoked (Callback 10)
           \<lparr>err = JUndefined, response = JStr ''ok'', isDisposed = JBool True\<rparr>]\<rparr>)
   \<and> handleResponse good_deps ''ok'' busy_client =
     (Inr (), busy_client\<lparr>effects :=
        [CallbackInvoked (Callback 10)
           \<lparr>err = JUndefined, response = JStr ''ok'', isDisposed = JUndefined\<rparr>]\<rparr>)
   \<and> routing_get (routingMap (snd (handleResponse good_deps ''ok'' busy_client))) ''1'' =
       Some (Callback 10)"
proof -
  let ?t = "\<lparr>err = JUndefined, response = JStr ''ok'', isDisposed = JBool True, resp_id = ''1''\<rparr>"
  let ?u = "\<lparr>err = JUndefined, response = JStr ''ok'', isDisposed = JUndefined, resp_id = ''1''\<rparr>"
  have a: "deserialize good_deps ''done'' = Inr ?t"
    by (simp add: good_deps_def)
  have b: "deserialize good_deps ''ok'' = Inr ?u"
    by (simp add: good_deps_def)
  have g: "routing_get (routingMap busy_client) (resp_id ?t) = Some (Callback 10)"
    "routing_get (routingMap busy_client) (resp_id ?u) = Some (Callback 10)"
    by (simp_all add: busy_client_def)
  have e: "effects busy_client = []"
    by (simp add: busy_client_def)
  from handleResponse_delivery [OF a g(1)] handleResponse_delivery [OF b g(2)] e g
  show ?thesis by simp
qed

subsection \<open>Results about connect\<close>

text \<open>
  C2. \<open>connect\<close> on a client that holds a connection promise returns that promise and
  changes nothing: no socket is created and no connect is issued. On a client that holds
  none, the first call creates exactly one socket (and issues the stream-level connect on
  it unless TLS is configured), and a second call returns the same promise and the same
  client.
\<close>

theorem connect_idempotent:
  "(connection c = Some p \<longrightarrow> connect c = (p, c))
   \<and> (connection c = None \<longrightarrow>
        (case connect c of (p1, c1) \<Rightarrow>
           connect c1 = (p1, c1)
           \<and> (\<exists>s. socket c1 = Some s
                \<and> sockets_created (effects c1) = sockets_created (effects c) @ [s]
                \<and> connects_issued (effects c1) =
                    connects_issued (effects c) @ (if truthy (tlsOptions c) then [] else [s]))))"
proof -
  have a: "connect c = (p, c)" if "connection c = Some p"
    using that by (rule connect_held)
  have b: "case connect c of (p1, c1) \<Rightarrow>
           connect c1 = (p1, c1)
           \<and> (\<exists>s. socket c1 = Some s
                \<and> sockets_created (effects c1) = sockets_created (effects c) @ [s]
                \<and> connects_issued (effects c1) =
                    connects_issued (effects c) @ (if truthy (tlsOptions c) then [] else [s]))"
    if n: "connection c = None"
    by (simp add: connect_fresh [OF n] connect_held sockets_created_append connects_issued_append)
  from a b show ?thesis by blast
qed

theorem connect_idempotent_witness:
  "connection busy_client = Some (Promise 1)
   \<and> connect busy_client = (Promise 1, busy_client)
   \<and> connection (new_client 3000 ''localhost'' JUndefined) = None
   \<and> connect (snd (connect (new_client 3000 ''localhost'' JUndefined))) =
       connect (new_client 3000 ''localhost'' JUndefined)
   \<and> sockets_created (effects (snd (connect (snd (connect (new_client 3000 ''localhost'' JUndefined)))))) =
       [TcpSocket 0 PlainSocket]
   \<and> connects_issued (effects (snd (connect (snd (connect (new_client 3000 ''localhost'' JUndefined)))))) =
       [TcpSocket 0 PlainSocket]"
proof -
  let ?n = "new_client 3000 ''localhost'' JUndefined"
  have a: "connection busy_client = Some (Promise 1)"
    by (simp add: busy_client_def)
  have b: "connection ?n = None" "effects ?n = []" "tlsOptions ?n = JUndefined" "next_ref ?n = 0"
    by (simp_all add: new_client_def)
  have s: "socket (snd (connect ?n)) = Some (TcpSocket 0 PlainSocket)"
    by (simp add: connect_fresh [OF b(1)] b)
  from connect_idempotent [of busy_client "Promise 1"] connect_idempotent [of ?n "Promise 0"] a b s
  show ?thesis
    by (auto split: prod.splits)
qed

subsection \<open>Results about the caller of publish\<close>

lemma handleResponseFromSend_terminal:
  assumes "deserialize d buffer = Inr m"
    and "routing_get (routingMap c) (resp_id m) = Some cb"
    and "truthy (isDisposed m) \<or> truthy (err m)"
  shows "handleResponseFromSend d buffer cb h c =
     (Inr (), runHandle h (c\<lparr>effects := effects c @
        [CallbackInvoked cb \<lparr>err = err m, response = response m, isDisposed = JBool True\<rparr>]\<rparr>))"
  using assms
  by (auto simp add: handleResponseFromSend_def handleResponse_def deliver_def invoke_def
      callerCallback_def)

lemma handleResponseFromSend_plain:
  assumes "deserialize d buffer = Inr m"
    and "routing_get (routingMap c) (resp_id m) = Some cb"
    and "\<not> truthy (isDisposed m)" and "\<not> truthy (err m)"
  shows "handleResponseFromSend d buffer cb h c =
     (Inr (), c\<lparr>effects := effects c @
        [CallbackInvoked cb \<lparr>err = err m, response = response m, isDisposed = JUndefined\<rparr>]\<rparr>)"
  using assms
  by (simp add: handleResponseFromSend_def handleResponse_def deliver_def invoke_def
      callerCallback_def)

text \<open>
  C4. A request was published with the callback of the request-dispatch base class, which
  holds the handle \<open>publish\<close> returned, and its identifier is registered. When a message for
  that identifier arrives that carries an error or the disposal marker, \<open>handleResponse\<close>
  invokes the callback once with the terminal-flagged outcome, and when it returns the
  routing map no longer contains the identifier. In the scenario (construct, connect,
  connect event, publish under identifier 1, then the disposed message with response
  \<open>ok\<close>) the callback is invoked once with \<open>ok\<close> and identifier 1 is gone.
\<close>

theorem terminal_outcome_unregisters:
  assumes "publish d rp cb c = (Some h, c1)"
    and "assignPacketId d rp = Inr pk"
    and "routing_get (routingMap c2) (req_id pk) = Some cb"
    and "deserialize d buffer = Inr m"
    and "resp_id m = req_id pk"
    and "truthy (isDisposed m) \<or> truthy (err m)"
  shows "routing_get (routingMap c1) (req_id pk) = Some cb
         \<and> fst (handleResponseFromSend d buffer cb h c2) = Inr ()
         \<and> invocations (effects (snd (handleResponseFromSend d buffer cb h c2))) =
             invocations (effects c2) @
             [(cb, \<lparr>err = err m, response = response m, isDisposed = JBool True\<rparr>)]
         \<and> routing_get (routingMap (snd (handleResponseFromSend d buffer cb h c2))) (req_id pk) = None"
proof -
  from publish_sent [OF assms(1)] assms(2)
  have h: "h = DeleteEntry (req_id pk)"
    and r: "routingMap c1 = routing_set (req_id pk) cb (routingMap c)"
    by auto
  from assms(3,5) have g: "routing_get (routingMap c2) (resp_id m) = Some cb"
    by simp
  show ?thesis
    by (simp add: handleResponseFromSend_terminal [OF assms(4) g assms(6)] h r
        routing_get_set routing_get_delete invocations_append)
qed

theorem terminal_outcome_unregisters_witness:
  "fst scenario_sent = Some (DeleteEntry ''1'')
   \<and> routing_get (routingMap (snd scenario_sent)) ''1'' = Some (Callback 30)
   \<and> invocations (effects (snd (handleResponseFromSend good_deps ''done'' (Callback 30)
        (DeleteEntry ''1'') (snd scenario_sent)))) =
       [(Callback 30, \<lparr>err = JUndefined, response = JStr ''ok'', isDisposed = JBool True\<rparr>)]
   \<and> routing_get (routingMap (snd (handleResponseFromSend good_deps ''done'' (Callback 30)
        (DeleteEntry ''1'') (snd scenario_sent)))) ''1'' = None"
proof -
  let ?c = "snd (onConnected (snd (connect (new_client 3000 ''localhost'' JUndefined))))"
  let ?pk = "\<lparr>pattern = JStr ''sum'', data = JNum 3, req_id = ''1''\<rparr>"
  let ?m = "\<lparr>err = JUndefined, response = JStr ''ok'', isDisposed = JBool True, resp_id = ''1''\<rparr>"
  have s: "scenario_sent = (Some (DeleteEntry ''1''), snd scenario_sent)"
    by (simp add: scenario_sent_eq)
  then have a: "publish good_deps a_request (Callback 30) ?c =
      (Some (DeleteEntry ''1''), snd scenario_sent)"
    by (simp add: scenario_sent_def)
  have b: "assignPacketId good_deps a_request = Inr ?pk"
    by (simp add: good_deps_def a_request_def)
  have g: "routing_get (routingMap (snd scenario_sent)) (req_id ?pk) = Some (Callback 30)"
    by (simp add: scenario_sent_eq)
  have e: "invocations (effects (snd scenario_sent)) = []"
    by (simp add: scenario_sent_eq)
  have m: "deserialize good_deps ''done'' = Inr ?m"
    by (simp add: good_deps_def)
  have i: "resp_id ?m = req_id ?pk"
    by simp
  have t: "truthy (isDisposed ?m) \<or> truthy (err ?m)"
    by simp
  have f: "fst scenario_sent = Some (DeleteEntry ''1'')"
    by (simp add: scenario_sent_eq)
  from terminal_outcome_unregisters [OF a b g m i t] f e show ?thesis
    by simp
qed

subsection \<open>Results about publish\<close>

text \<open>
  C5. When the identifier assignment or the serializer throws inside \<open>publish\<close>, the
  exception is caught: \<open>publish\<close> returns \<open>undefined\<close> after invoking the callback of this
  call once with the thrown value as \<open>err\<close>. The routing map (so every other pending entry),
  \<open>isConnected\<close>, the socket and the connection promise are as before.
\<close>

theorem publish_serialization_failure:
  assumes "assignPacketId d rp = Inl e \<or> (assignPacketId d rp = Inr pk \<and> serialize d pk = Inl e)"
  shows "fst (publish d rp cb c) = None
         \<and> effects (snd (publish d rp cb c)) =
             effects c @ [CallbackInvoked cb \<lparr>err = e, response = JUndefined, isDisposed = JUndefined\<rparr>]
         \<and> routingMap (snd (publish d rp cb c)) = routingMap c
         \<and> isConnected (snd (publish d rp cb c)) = isConnected c
         \<and> socket (snd (publish d rp cb c)) = socket c
         \<and> connection (snd (publish d rp cb c)) = connection c"
  by (simp add: publish_caught_early [OF assms] failureOutcome_def)

theorem publish_serialization_failure_witness:
  "assignPacketId bad_serializer a_request =
     Inr \<lparr>pattern = JStr ''sum'', data = JNum 3, req_id = ''1''\<rparr>
   \<and> serialize bad_serializer \<lparr>pattern = JStr ''sum'', data = JNum 3, req_id = ''1''\<rparr> =
       Inl (JError TypeErrorClass ''cyclic'')
   \<and> fst (publish bad_serializer a_request (Callback 30) busy_client) = None
   \<and> effects (snd (publish bad_serializer a_request (Callback 30) busy_client)) =
       [CallbackInvoked (Callback 30)
          \<lparr>err = JError TypeErrorClass ''cyclic'', response = JUndefined, isDisposed = JUndefined\<rparr>]
   \<and> routingMap (snd (publish bad_serializer a_request (Callback 30) busy_client)) =
       [(''1'', Callback 10), (''2'', Callback 20)]
   \<and> connection (snd (publish bad_serializer a_request (Callback 30) busy_client)) =
       Some (Promise 1)"
proof -
  let ?pk = "\<lparr>pattern = JStr ''sum'', data = JNum 3, req_id = ''1''\<rparr>"
  have a: "assignPacketId bad_serializer a_request = Inr ?pk"
    by (simp add: bad_serializer_def good_deps_def a_request_def)
  have b: "serialize bad_serializer ?pk = Inl (JError TypeErrorClass ''cyclic'')"
    by (simp add: bad_serializer_def)
  have h: "assignPacketId bad_serializer a_request = Inl (JError TypeErrorClass ''cyclic'')
        \<or> (assignPacketId bad_serializer a_request = Inr ?pk
           \<and> serialize bad_serializer ?pk = Inl (JError TypeErrorClass ''cyclic''))"
    using a b by simp
  have c: "effects busy_client = []"
    "routingMap busy_client = [(''1'', Callback 10), (''2'', Callback 20)]"
    "connection busy_client = Some (Promise 1)"
    by (simp_all add: busy_client_def)
  from publish_serialization_failure [OF h, of "Callback 30" busy_client] a b c
  show ?thesis by simp
qed

text \<open>
  C10. When the packet is assigned and serialized but the write throws (there is no
  socket, or \<open>sendMessage\<close> throws), \<open>publish\<close> invokes the callback with the thrown value
  and returns \<open>undefined\<close>, not a cancellation handle. The identifier is registered in the
  routing map when \<open>publish\<close> returns; a later \<open>handleClose\<close> removes it.
\<close>

theorem publish_send_failure:
  assumes "assignPacketId d rp = Inr pk"
    and "serialize d pk = Inr w"
    and "(socket c = None \<and> e = nullDeref) \<or> (socket c = Some s \<and> sendMessage d s w = Some e)"
  shows "fst (publish d rp cb c) = None
         \<and> effects (snd (publish d rp cb c)) =
             effects c @ [CallbackInvoked cb \<lparr>err = e, response = JUndefined, isDisposed = JUndefined\<rparr>]
         \<and> routing_get (routingMap (snd (publish d rp cb c))) (req_id pk) = Some cb
         \<and> routingMap (snd (publish d rp cb c)) = routing_set (req_id pk) cb (routingMap c)
         \<and> routing_get (routingMap (handleClose (snd (publish d rp cb c)))) (req_id pk) = None"
  using assms
  by (auto simp add: publish_def invoke_def failureOutcome_def routing_get_set handleClose_eq)

theorem publish_send_failure_witness:
  "fst (publish bad_write a_request (Callback 30) waiting_client) = None
   \<and> effects (snd (publish bad_write a_request (Callback 30) waiting_client)) =
       [CallbackInvoked (Callback 30)
          \<lparr>err = JError ErrorClass ''EPIPE'', response = JUndefined, isDisposed = JUndefined\<rparr>]
   \<and> routingMap (snd (publish bad_write a_request (Callback 30) waiting_client)) =
       [(''2'', Callback 20), (''1'', Callback 30)]
   \<and> fst (publish good_deps a_request (Callback 30) (new_client 3000 ''localhost'' JUndefined)) = None
   \<and> effects (snd (publish good_deps a_request (Callback 30) (new_client 3000 ''localhost'' JUndefined))) =
       [CallbackInvoked (Callback 30)
          \<lparr>err = nullDeref, response = JUndefined, isDisposed = JUndefined\<rparr>]
   \<and> routingMap (snd (publish good_deps a_request (Callback 30) (new_client 3000 ''localhost'' JUndefined))) =
       [(''1'', Callback 30)]"
proof -
  let ?pk = "\<lparr>pattern = JStr ''sum'', data = JNum 3, req_id = ''1''\<rparr>"
  let ?n = "new_client 3000 ''localhost'' JUndefined"
  have a: "assignPacketId bad_write a_request = Inr ?pk" "assignPacketId good_deps a_request = Inr ?pk"
    by (simp_all add: bad_write_def good_deps_def a_request_def)
  have b: "serialize bad_write ?pk = Inr ''1''" "serialize good_deps ?pk = Inr ''1''"
    by (simp_all add: bad_write_def good_deps_def)
  have h1: "(socket waiting_client = None \<and> JError ErrorClass ''EPIPE'' = nullDeref)
      \<or> (socket waiting_client = Some (TcpSocket 0 PlainSocket)
         \<and> sendMessage bad_write (TcpSocket 0 PlainSocket) ''1'' = Some (JError ErrorClass ''EPIPE''))"
    by (simp add: waiting_client_def bad_write_def)
  have h2: "(socket ?n = None \<and> nullDeref = nullDeref)
      \<or> (socket ?n = Some (TcpSocket 0 PlainSocket)
         \<and> sendMessage good_deps (TcpSocket 0 PlainSocket) ''1'' = Some nullDeref)"
    by (simp add: new_client_def)
  have c: "effects waiting_client = []" "effects ?n = []"
    "routingMap waiting_client = [(''2'', Callback 20)]"
    "routingMap ?n = []"
    by (simp_all add: waiting_client_def new_client_def)
  from publish_send_failure [OF a(1) b(1) h1, of "Callback 30"]
    publish_send_failure [OF a(2) b(2) h2, of "Callback 30"] c
  show ?thesis by simp
qed

end
